theory Spec2Isabelle
  imports Complex_Main
begin

section \<open>JavaScript values\<close>

text \<open>
  The dashboard script (\<^verbatim>\<open>src/script.js\<close>) is dynamically typed: every field of a
  sensor and every property of a stored record can hold any primitive value. A number is
  a finite double, read at its exact rational value (comparisons of doubles agree with the
  comparisons of their values; \<open>+0\<close> and \<open>-0\<close> are \<open>===\<close>-equal and are identified), or
  one of \<open>NaN\<close>, \<open>Infinity\<close>, \<open>-Infinity\<close>. A string is the list of its UTF-8 bytes.
\<close>

datatype jsnum = Finite rat | NaN | PosInfinity | NegInfinity

datatype jsval = JSUndefined | JSNull | JSBool bool | JSNumber jsnum | JSString string

datatype js_error = TypeError

text \<open>\<open>ToBoolean\<close>: what \<^verbatim>\<open>!x\<close>, \<^verbatim>\<open>x || y\<close> and \<^verbatim>\<open>x && y\<close> test.\<close>

fun truthy :: "jsval \<Rightarrow> bool" where
  "truthy JSUndefined = False"
| "truthy JSNull = False"
| "truthy (JSBool b) = b"
| "truthy (JSNumber (Finite q)) = (q \<noteq> 0)"
| "truthy (JSNumber NaN) = False"
| "truthy (JSNumber PosInfinity) = True"
| "truthy (JSNumber NegInfinity) = True"
| "truthy (JSString s) = (s \<noteq> [])"

text \<open>\<^verbatim>\<open>a || b\<close>\<close>

definition js_or :: "jsval \<Rightarrow> jsval \<Rightarrow> jsval" where
  "js_or a b = (if truthy a then a else b)"

text \<open>\<^verbatim>\<open>a === b\<close> on primitive values: \<open>NaN\<close> is not equal to itself.\<close>

definition strict_eq :: "jsval \<Rightarrow> jsval \<Rightarrow> bool" where
  "strict_eq a b = (a = b \<and> a \<noteq> JSNumber NaN)"

text \<open>A default parameter value is used exactly when the argument is \<open>undefined\<close>.\<close>

definition default_arg :: "jsval \<Rightarrow> jsval \<Rightarrow> jsval" where
  "default_arg d a = (if a = JSUndefined then d else a)"

text \<open>The relational operators on numbers: every comparison with \<open>NaN\<close> is false.\<close>

fun num_less :: "jsnum \<Rightarrow> jsnum \<Rightarrow> bool" where
  "num_less NaN b = False"
| "num_less a NaN = False"
| "num_less (Finite x) (Finite y) = (x < y)"
| "num_less (Finite x) PosInfinity = True"
| "num_less (Finite x) NegInfinity = False"
| "num_less PosInfinity b = False"
| "num_less NegInfinity (Finite y) = True"
| "num_less NegInfinity PosInfinity = True"
| "num_less NegInfinity NegInfinity = False"

fun num_le :: "jsnum \<Rightarrow> jsnum \<Rightarrow> bool" where
  "num_le NaN b = False"
| "num_le a NaN = False"
| "num_le a b = (\<not> num_less b a)"

subsection \<open>Strings\<close>

text \<open>
  \<^verbatim>\<open>String.prototype.toLowerCase\<close> on the ASCII letters; other bytes are kept. The only
  needles searched for in lower-cased text are \<open>temp\<close>, \<open>rain\<close> and \<open>thunder\<close>, and no
  character outside ASCII lower-cases to one of their letters next to the others.
\<close>

definition lower_char :: "char \<Rightarrow> char" where
  "lower_char c =
     (case map_of (zip ''ABCDEFGHIJKLMNOPQRSTUVWXYZ'' ''abcdefghijklmnopqrstuvwxyz'') c of
        None \<Rightarrow> c
      | Some l \<Rightarrow> l)"

definition toLowerCase :: "string \<Rightarrow> string" where
  "toLowerCase s = map lower_char s"

fun startsWith :: "string \<Rightarrow> string \<Rightarrow> bool" where
  "startsWith s [] = True"
| "startsWith [] (t # ts) = False"
| "startsWith (c # cs) (t # ts) = (c = t \<and> startsWith cs ts)"

text \<open>\<^verbatim>\<open>s.includes(t)\<close>: \<open>t\<close> occurs in \<open>s\<close> at some position.\<close>

fun includes_str :: "string \<Rightarrow> string \<Rightarrow> bool" where
  "includes_str [] t = (t = [])"
| "includes_str (c # cs) t = (startsWith (c # cs) t \<or> includes_str cs t)"

text \<open>The unit \<^verbatim>\<open>"\<degree>C"\<close>: the degree sign is the two bytes \<open>C2 B0\<close>.\<close>

definition degC :: string where
  "degC = [CHR 0xC2, CHR 0xB0, CHR ''C'']"

fun show_nat :: "nat \<Rightarrow> string" where
  "show_nat n =
     (if n < 10 then [''0123456789'' ! n]
      else show_nat (n div 10) @ [''0123456789'' ! (n mod 10)])"

declare show_nat.simps [simp del]

text \<open>
  \<^verbatim>\<open>x.toFixed(1)\<close> for a finite \<open>x\<close> below \<open>10^21\<close> in size: the integer \<open>n\<close> with
  \<open>n / 10\<close> nearest to \<open>|x|\<close> (the larger one at a tie), printed with one digit after the
  point, after a minus sign when \<open>x\<close> is negative. The result is a string.
\<close>

definition toFixed1 :: "rat \<Rightarrow> string" where
  "toFixed1 x =
     (let n = nat \<lfloor>\<bar>x\<bar> * 10 + 1 / 2\<rfloor>;
          digits = show_nat (n div 10) @ ''.'' @ show_nat (n mod 10)
      in if x < 0 then ''-'' @ digits else digits)"

section \<open>Sensor classes\<close>

text \<open>
  \<^verbatim>\<open>class Sensor\<close> with its private \<open>#name\<close>, \<open>#value\<close> and its public fields;
  \<^verbatim>\<open>class TemperatureSensor extends Sensor\<close> adds \<open>unit\<close>.
\<close>

record sensor =
  name :: jsval
  val :: jsval
  description :: jsval
  city :: jsval
  lat :: jsval
  lon :: jsval

record temperature_sensor = sensor +
  unit :: jsval

datatype entity = Sensor sensor | TemperatureSensor temperature_sensor

text \<open>The constructors, with their default parameters.\<close>

definition new_Sensor ::
  "jsval \<Rightarrow> jsval \<Rightarrow> jsval \<Rightarrow> jsval \<Rightarrow> jsval \<Rightarrow> jsval \<Rightarrow> sensor" where
  "new_Sensor n v desc c la lo =
     \<lparr>name = n, val = v,
      description = default_arg (JSString []) desc,
      city = default_arg (JSString []) c,
      lat = default_arg JSNull la,
      lon = default_arg JSNull lo\<rparr>"

definition new_TemperatureSensor ::
  "jsval \<Rightarrow> jsval \<Rightarrow> jsval \<Rightarrow> jsval \<Rightarrow> jsval \<Rightarrow> jsval \<Rightarrow> jsval \<Rightarrow> temperature_sensor" where
  "new_TemperatureSensor n v desc c la lo u =
     sensor.extend (new_Sensor n v desc c la lo)
       (temperature_sensor.fields (default_arg (JSString degC) u))"

fun getName :: "entity \<Rightarrow> jsval" where
  "getName (Sensor s) = name s"
| "getName (TemperatureSensor t) = name t"

fun getValue :: "entity \<Rightarrow> jsval" where
  "getValue (Sensor s) = val s"
| "getValue (TemperatureSensor t) = val t"

text \<open>The public fields, read off an object of either class (\<^verbatim>\<open>s.city\<close>, ...).\<close>

fun get_description :: "entity \<Rightarrow> jsval" where
  "get_description (Sensor s) = description s"
| "get_description (TemperatureSensor t) = description t"

fun get_city :: "entity \<Rightarrow> jsval" where
  "get_city (Sensor s) = city s"
| "get_city (TemperatureSensor t) = city t"

fun get_lat :: "entity \<Rightarrow> jsval" where
  "get_lat (Sensor s) = lat s"
| "get_lat (TemperatureSensor t) = lat t"

fun get_lon :: "entity \<Rightarrow> jsval" where
  "get_lon (Sensor s) = lon s"
| "get_lon (TemperatureSensor t) = lon t"

text \<open>\<^verbatim>\<open>s.unit\<close>: a base \<open>Sensor\<close> has no such property, so the read gives \<open>undefined\<close>.\<close>

fun get_unit :: "entity \<Rightarrow> jsval" where
  "get_unit (Sensor s) = JSUndefined"
| "get_unit (TemperatureSensor t) = unit t"

fun is_TemperatureSensor :: "entity \<Rightarrow> bool" where
  "is_TemperatureSensor (Sensor s) = False"
| "is_TemperatureSensor (TemperatureSensor t) = True"

section \<open>Stored records\<close>

text \<open>
  A plain object of the stored JSON array. Only these eight properties are ever read; a
  property that is absent reads as \<open>undefined\<close>. Stored text that is not a JSON array of
  objects is never written by the script and is not modelled.
\<close>

record plain =
  obj_name :: jsval
  obj_value :: jsval
  obj_description :: jsval
  obj_city :: jsval
  obj_lat :: jsval
  obj_lon :: jsval
  obj_unit :: jsval
  obj_type :: jsval

text \<open>\<^verbatim>\<open>Sensor.toJSON\<close>, on the fields every sensor has.\<close>

definition Sensor_toJSON :: "'a sensor_scheme \<Rightarrow> plain" where
  "Sensor_toJSON s =
     \<lparr>obj_name = name s, obj_value = val s, obj_description = description s,
      obj_city = city s, obj_lat = lat s, obj_lon = lon s,
      obj_unit = JSUndefined, obj_type = JSUndefined\<rparr>"

text \<open>\<^verbatim>\<open>toJSON\<close>, dispatched on the class; the subclass extends \<^verbatim>\<open>super.toJSON()\<close>.\<close>

fun toJSON :: "entity \<Rightarrow> plain" where
  "toJSON (Sensor s) = Sensor_toJSON s"
| "toJSON (TemperatureSensor t) =
     (let base = Sensor_toJSON t
      in base\<lparr>obj_unit := unit t, obj_type := JSString ''temperature''\<rparr>)"

text \<open>
  What a property value is after \<^verbatim>\<open>JSON.stringify\<close> and \<^verbatim>\<open>JSON.parse\<close>: a property
  holding \<open>undefined\<close> is left out (and reads as \<open>undefined\<close> again), a number that is not
  finite is written as \<open>null\<close>, everything else comes back as it was.
\<close>

fun json_value :: "jsval \<Rightarrow> jsval" where
  "json_value (JSNumber (Finite q)) = JSNumber (Finite q)"
| "json_value (JSNumber x) = JSNull"
| "json_value v = v"

definition json_plain :: "plain \<Rightarrow> plain" where
  "json_plain p =
     \<lparr>obj_name = json_value (obj_name p), obj_value = json_value (obj_value p),
      obj_description = json_value (obj_description p), obj_city = json_value (obj_city p),
      obj_lat = json_value (obj_lat p), obj_lon = json_value (obj_lon p),
      obj_unit = json_value (obj_unit p), obj_type = json_value (obj_type p)\<rparr>"

section \<open>Application state\<close>

text \<open>
  The weather provider's answer, as far as the script reads it: \<open>coord\<close> (tested before
  use in \<^verbatim>\<open>renderCityView\<close>, so it may be absent), \<open>main.temp\<close>, \<open>weather[0].main\<close> and
  \<open>wind.speed\<close>.
\<close>

record weather =
  coord :: "(jsval \<times> jsval) option"
  temp :: jsnum
  weather_main :: string
  wind_speed :: jsnum

record checkbox =
  cb_value :: string
  cb_checked :: bool

text \<open>
  The module-level state: the item of \<open>localStorage\<close> under \<open>STORAGE_KEY\<close> as the array
  its text parses to (\<open>None\<close> when the item is absent or empty), \<open>currentCity\<close>,
  \<open>currentWeatherData\<close>, the four checkboxes under their keys, the \<open>sensors\<close> array that
  the rows drawn by the last \<^verbatim>\<open>renderManageList\<close> hold, and the alerts shown so far.
  The \<open>value\<close> attribute of each checkbox is set by the page, which is not part of the
  script, so it is a field of the state.
\<close>

record state =
  storage :: "plain list option"
  currentCity :: "string option"
  currentWeatherData :: "weather option"
  checkboxes :: "(string \<times> checkbox) list"
  sensors :: "entity list"
  alerts :: "string list"

text \<open>How a handler ends: it returns, or it throws; either way the state is left behind.\<close>

datatype result = Ok (final: state) | Exn js_error (final: state)

section \<open>Storage helpers\<close>

definition readRawSensors :: "state \<Rightarrow> plain list" where
  "readRawSensors st = (case storage st of None \<Rightarrow> [] | Some raw \<Rightarrow> raw)"

text \<open>
  The test of \<^verbatim>\<open>getAllSensors\<close> on one stored object,
  \<^verbatim>\<open>obj.type === "temperature" || (obj.name && obj.name.toLowerCase().includes("temp"))\<close>.
  A truthy name that is not a string has no \<open>toLowerCase\<close>: the call throws.
\<close>

definition looks_like_temperature :: "plain \<Rightarrow> js_error + bool" where
  "looks_like_temperature obj =
     (if strict_eq (obj_type obj) (JSString ''temperature'') then Inr True
      else if \<not> truthy (obj_name obj) then Inr False
      else (case obj_name obj of
              JSString s \<Rightarrow> Inr (includes_str (toLowerCase s) ''temp'')
            | _ \<Rightarrow> Inl TypeError))"

text \<open>The function mapped over the stored array by \<^verbatim>\<open>getAllSensors\<close>.\<close>

definition reconstruct :: "plain \<Rightarrow> js_error + entity" where
  "reconstruct obj =
     (case looks_like_temperature obj of
        Inl e \<Rightarrow> Inl e
      | Inr True \<Rightarrow>
          Inr (TemperatureSensor
                (new_TemperatureSensor (obj_name obj) (obj_value obj)
                   (js_or (obj_description obj) (JSString []))
                   (js_or (obj_city obj) (JSString []))
                   (js_or (obj_lat obj) JSNull) (js_or (obj_lon obj) JSNull)
                   (js_or (obj_unit obj) (JSString degC))))
      | Inr False \<Rightarrow>
          Inr (Sensor
                (new_Sensor (obj_name obj) (obj_value obj)
                   (js_or (obj_description obj) (JSString []))
                   (js_or (obj_city obj) (JSString []))
                   (js_or (obj_lat obj) JSNull) (js_or (obj_lon obj) JSNull))))"

text \<open>\<^verbatim>\<open>Array.prototype.map\<close> with a callback that may throw: the first throw ends it.\<close>

fun map_throwing :: "('a \<Rightarrow> js_error + 'b) \<Rightarrow> 'a list \<Rightarrow> js_error + 'b list" where
  "map_throwing f [] = Inr []"
| "map_throwing f (x # xs) =
     (case f x of
        Inl e \<Rightarrow> Inl e
      | Inr y \<Rightarrow> (case map_throwing f xs of Inl e \<Rightarrow> Inl e | Inr ys \<Rightarrow> Inr (y # ys)))"

definition getAllSensors :: "state \<Rightarrow> js_error + entity list" where
  "getAllSensors st = map_throwing reconstruct (readRawSensors st)"

definition saveAllSensors :: "entity list \<Rightarrow> state \<Rightarrow> state" where
  "saveAllSensors instances st =
     (let plain = map toJSON instances
      in st\<lparr>storage := Some (map json_plain plain)\<rparr>)"

section \<open>Manage list\<close>

text \<open>
  \<^verbatim>\<open>renderManageList\<close>: loads the sensors and draws one row for each; the delete button
  of row \<open>idx\<close> keeps the loaded array and \<open>idx\<close>. When the load throws, nothing has
  been redrawn yet.
\<close>

definition renderManageList :: "state \<Rightarrow> result" where
  "renderManageList st =
     (case getAllSensors st of
        Inl e \<Rightarrow> Exn e st
      | Inr loaded \<Rightarrow> Ok (st\<lparr>sensors := loaded\<rparr>))"

text \<open>\<^verbatim>\<open>xs.splice(i, 1)\<close>: past the end it removes nothing.\<close>

definition splice1 :: "nat \<Rightarrow> 'a list \<Rightarrow> 'a list" where
  "splice1 i xs = take i xs @ drop (Suc i) xs"


section \<open>Checkbox changes\<close>

text \<open>\<^verbatim>\<open>xs.findIndex(p)\<close>, with \<open>None\<close> for \<open>-1\<close>.\<close>

fun findIndex :: "('a \<Rightarrow> bool) \<Rightarrow> 'a list \<Rightarrow> nat option" where
  "findIndex p [] = None"
| "findIndex p (x # xs) = (if p x then Some 0 else map_option Suc (findIndex p xs))"

text \<open>
  The mock reading of a category, from one draw \<open>rnd\<close> of \<^verbatim>\<open>Math.random()\<close>: the value,
  the unit and the description. \<^verbatim>\<open>Math.floor\<close> gives a number, \<^verbatim>\<open>toFixed\<close> a string.
\<close>

definition mockData :: "string \<Rightarrow> rat \<Rightarrow> jsval \<times> string \<times> string" where
  "mockData type rnd =
     (if type = ''Air Quality'' then
        (JSNumber (Finite (of_int \<lfloor>rnd * 150\<rfloor> + 20)), ''AQI'', ''PM2.5 Index'')
      else if type = ''Water Quality'' then
        (JSString (toFixed1 (rnd * 3 + 6)), ''pH'', ''Acidity Level'')
      else if type = ''Soil Quality'' then
        (JSNumber (Finite (of_int \<lfloor>rnd * 100\<rfloor>)), ''%'', ''Moisture Level'')
      else if type = ''Ecosystem Health'' then
        (JSNumber (Finite (of_int \<lfloor>rnd * 100\<rfloor>)), ''Index'', ''Biodiversity Score'')
      else (JSNumber (Finite 0), [], []))"

text \<open>\<^verbatim>\<open>!currentCity\<close>: no city, or the empty string.\<close>

definition no_city :: "string option \<Rightarrow> bool" where
  "no_city c = (case c of None \<Rightarrow> True | Some s \<Rightarrow> s = [])"

text \<open>
  The test of the filter at the end of \<^verbatim>\<open>toggleSensor\<close>,
  \<^verbatim>\<open>s.city && s.city.toLowerCase() === currentCity.toLowerCase()\<close>.
\<close>

definition in_city :: "string \<Rightarrow> entity \<Rightarrow> js_error + bool" where
  "in_city c s =
     (if \<not> truthy (get_city s) then Inr False
      else (case get_city s of
              JSString sc \<Rightarrow> Inr (toLowerCase sc = toLowerCase c)
            | _ \<Rightarrow> Inl TypeError))"

text \<open>
  The end of \<^verbatim>\<open>toggleSensor\<close>: save, redraw the list, refresh chart and map. Chart and
  map are widgets outside the script and hold none of the state above; of the refresh,
  what is kept is that its filter can throw.
\<close>

definition save_and_refresh :: "string \<Rightarrow> entity list \<Rightarrow> state \<Rightarrow> result" where
  "save_and_refresh c allSensors st =
     (case renderManageList (saveAllSensors allSensors st) of
        Exn e st1 \<Rightarrow> Exn e st1
      | Ok st1 \<Rightarrow>
          (case map_throwing (in_city c) allSensors of
             Inl e \<Rightarrow> Exn e st1
           | Inr keep \<Rightarrow> Ok st1))"

text \<open>
  \<^verbatim>\<open>toggleSensor(type, isChecked)\<close>. \<open>fetched\<close> is what \<^verbatim>\<open>fetchWeatherForCity\<close> answers
  if it is called (\<open>None\<close> for its \<open>null\<close>), \<open>rnd\<close> the draw of \<^verbatim>\<open>Math.random()\<close>.
  Reading \<open>coord.lat\<close> of an answer without \<open>coord\<close> throws. No other listener runs while
  the fetch is awaited.
\<close>

definition toggleSensor :: "weather option \<Rightarrow> rat \<Rightarrow> string \<Rightarrow> bool \<Rightarrow> state \<Rightarrow> result" where
  "toggleSensor fetched rnd type isChecked st =
     (if no_city (currentCity st) then
        Ok (st\<lparr>alerts := alerts st @ [''Please search for a city first.''],
               checkboxes :=
                 map (\<lambda>(k, cb). (k, if cb_value cb = type then cb\<lparr>cb_checked := \<not> isChecked\<rparr> else cb))
                   (checkboxes st)\<rparr>)
      else
        let c = the (currentCity st) in
        case getAllSensors st of
          Inl e \<Rightarrow> Exn e st
        | Inr allSensors \<Rightarrow>
            let sensorName = c @ '' '' @ type;
                existingIdx = findIndex (\<lambda>s. strict_eq (getName s) (JSString sensorName)) allSensors
            in
              if isChecked then
                (case existingIdx of
                   Some i \<Rightarrow> save_and_refresh c allSensors st
                 | None \<Rightarrow>
                     let st1 = (case currentWeatherData st of
                                  None \<Rightarrow> st\<lparr>currentWeatherData := fetched\<rparr>
                                | Some w \<Rightarrow> st)
                     in
                       (case currentWeatherData st1 of
                          None \<Rightarrow> Ok st1
                        | Some w \<Rightarrow>
                            (case coord w of
                               None \<Rightarrow> Exn TypeError st1
                             | Some (la, lo) \<Rightarrow>
                                 (case mockData type rnd of
                                    (v, u, desc) \<Rightarrow>
                                      let newSensor =
                                            TemperatureSensor
                                              (new_TemperatureSensor (JSString sensorName) v
                                                 (JSString desc) (JSString c) la lo (JSString u))
                                      in save_and_refresh c (allSensors @ [newSensor]) st1))))
              else
                (case existingIdx of
                   Some i \<Rightarrow> save_and_refresh c (splice1 i allSensors) st
                 | None \<Rightarrow> save_and_refresh c allSensors st))"

text \<open>
  The \<open>change\<close> listener of the checkbox under key \<open>k\<close>: the browser has flipped the box
  when the listener runs, and the listener passes the box's value and its new state.
\<close>

definition flip_checkbox :: "string \<Rightarrow> (string \<times> checkbox) list \<Rightarrow> (string \<times> checkbox) list" where
  "flip_checkbox k cbs =
     map (\<lambda>(k', cb). (k', if k' = k then cb\<lparr>cb_checked := \<not> cb_checked cb\<rparr> else cb)) cbs"

definition onChange :: "string \<Rightarrow> weather option \<Rightarrow> rat \<Rightarrow> state \<Rightarrow> result" where
  "onChange k fetched rnd st =
     (case map_of (checkboxes st) k of
        None \<Rightarrow> Ok st
      | Some cb \<Rightarrow>
          toggleSensor fetched rnd (cb_value cb) (\<not> cb_checked cb)
            (st\<lparr>checkboxes := flip_checkbox k (checkboxes st)\<rparr>))"

section \<open>Weather analysis\<close>

text \<open>The classification of \<^verbatim>\<open>renderCityView\<close>: status, colour, background, text colour.\<close>

definition isRain :: "weather \<Rightarrow> bool" where
  "isRain w =
     (includes_str (toLowerCase (weather_main w)) ''rain''
      \<or> includes_str (toLowerCase (weather_main w)) ''thunder'')"

definition weatherAnalysis :: "weather \<Rightarrow> string \<times> string \<times> string \<times> string" where
  "weatherAnalysis w =
     (if num_le (Finite 18) (temp w) \<and> num_le (temp w) (Finite 32) \<and> \<not> isRain w
         \<and> num_less (wind_speed w) (Finite 10)
      then (''Good Condition'', ''green'', ''#d4edda'', ''#155724'')
      else if num_less (Finite 35) (temp w) \<or> num_less (temp w) (Finite 5) \<or> isRain w
         \<or> num_less (Finite 15) (wind_speed w)
      then (''Bad Condition'', ''red'', ''#f8d7da'', ''#721c24'')
      else (''Moderate'', ''orange'', ''#fff3cd'', ''#856404''))"

definition status :: "weather \<Rightarrow> string" where
  "status w = fst (weatherAnalysis w)"

section \<open>Entities that storage keeps as they are\<close>

text \<open>
  The fields as the data model types them, narrowed to what a save followed by a load
  gives back unchanged: a string name, description and city; a value that JSON can carry
  (anything but \<open>NaN\<close> and the infinities); a latitude and a longitude that are \<open>null\<close>
  or a finite number other than zero; for a \<open>TemperatureSensor\<close> a unit that is a
  non-empty string; for a base \<open>Sensor\<close> a name without \<open>temp\<close> in any letter case.
\<close>

definition is_string :: "jsval \<Rightarrow> bool" where
  "is_string v = (case v of JSString s \<Rightarrow> True | _ \<Rightarrow> False)"

definition null_or_nonzero :: "jsval \<Rightarrow> bool" where
  "null_or_nonzero v =
     (case v of JSNull \<Rightarrow> True | JSNumber (Finite q) \<Rightarrow> q \<noteq> 0 | _ \<Rightarrow> False)"

definition common_fields_kept :: "'a sensor_scheme \<Rightarrow> bool" where
  "common_fields_kept s =
     (is_string (name s) \<and> json_value (val s) = val s
      \<and> is_string (description s) \<and> is_string (city s)
      \<and> null_or_nonzero (lat s) \<and> null_or_nonzero (lon s))"

fun kept_by_storage :: "entity \<Rightarrow> bool" where
  "kept_by_storage (Sensor s) =
     (common_fields_kept s
      \<and> (case name s of JSString n \<Rightarrow> \<not> includes_str (toLowerCase n) ''temp'' | _ \<Rightarrow> True))"
| "kept_by_storage (TemperatureSensor t) =
     (common_fields_kept t \<and> (case unit t of JSString u \<Rightarrow> u \<noteq> [] | _ \<Rightarrow> False))"

section \<open>Example data\<close>

text \<open>A page with the four checkboxes, each carrying its category as value, all unchecked.\<close>

definition page_checkboxes :: "(string \<times> checkbox) list" where
  "page_checkboxes =
     [(''Air Quality'', \<lparr>cb_value = ''Air Quality'', cb_checked = False\<rparr>),
      (''Water Quality'', \<lparr>cb_value = ''Water Quality'', cb_checked = False\<rparr>),
      (''Soil Quality'', \<lparr>cb_value = ''Soil Quality'', cb_checked = False\<rparr>),
      (''Ecosystem Health'', \<lparr>cb_value = ''Ecosystem Health'', cb_checked = False\<rparr>)]"

text \<open>The state right after the page has loaded: an empty stored array, no city.\<close>

definition fresh_state :: state where
  "fresh_state =
     \<lparr>storage = Some [], currentCity = None, currentWeatherData = None,
      checkboxes = page_checkboxes, sensors = [], alerts = []\<rparr>"

text \<open>An answer of the weather provider for Davao, and the state after that search.\<close>

definition davao_weather :: weather where
  "davao_weather =
     \<lparr>coord = Some (JSNumber (Finite 7), JSNumber (Finite (251 / 2))),
      temp = Finite 25, weather_main = ''Clear'', wind_speed = Finite 5\<rparr>"

definition davao_state :: state where
  "davao_state =
     fresh_state\<lparr>currentCity := Some ''Davao'', currentWeatherData := Some davao_weather\<rparr>"

text \<open>
  Stored records: one written by the toggle flow, one older record with nothing but a name
  and a value, one without a type tag, and one for a city on the equator.
\<close>

definition air_record :: plain where
  "air_record =
     \<lparr>obj_name = JSString ''Davao Air Quality'', obj_value = JSNumber (Finite 95),
      obj_description = JSString ''PM2.5 Index'', obj_city = JSString ''Davao'',
      obj_lat = JSNumber (Finite 7), obj_lon = JSNumber (Finite (251 / 2)),
      obj_unit = JSString ''AQI'', obj_type = JSString ''temperature''\<rparr>"

definition legacy_record :: plain where
  "legacy_record =
     \<lparr>obj_name = JSString ''Room Temp'', obj_value = JSNumber (Finite 21),
      obj_description = JSUndefined, obj_city = JSUndefined,
      obj_lat = JSUndefined, obj_lon = JSUndefined,
      obj_unit = JSUndefined, obj_type = JSUndefined\<rparr>"

definition humidity_record :: plain where
  "humidity_record =
     \<lparr>obj_name = JSString ''Davao Humidity'', obj_value = JSNumber (Finite 60),
      obj_description = JSString ''Relative humidity'', obj_city = JSString ''Davao'',
      obj_lat = JSNull, obj_lon = JSNull,
      obj_unit = JSUndefined, obj_type = JSUndefined\<rparr>"

definition equator_record :: plain where
  "equator_record =
     \<lparr>obj_name = JSString ''Pontianak Soil Quality'', obj_value = JSNumber (Finite 40),
      obj_description = JSString ''Moisture Level'', obj_city = JSString ''Pontianak'',
      obj_lat = JSNumber (Finite 0), obj_lon = JSNumber (Finite (437 / 4)),
      obj_unit = JSString ''%'', obj_type = JSString ''temperature''\<rparr>"

text \<open>The sensors these records are loaded as, and a sensor on the equator.\<close>

definition air_sensor :: entity where
  "air_sensor =
     TemperatureSensor
       \<lparr>name = JSString ''Davao Air Quality'', val = JSNumber (Finite 95),
        description = JSString ''PM2.5 Index'', city = JSString ''Davao'',
        lat = JSNumber (Finite 7), lon = JSNumber (Finite (251 / 2)),
        unit = JSString ''AQI''\<rparr>"

definition legacy_sensor :: entity where
  "legacy_sensor =
     TemperatureSensor
       \<lparr>name = JSString ''Room Temp'', val = JSNumber (Finite 21),
        description = JSString [], city = JSString [], lat = JSNull, lon = JSNull,
        unit = JSString degC\<rparr>"

definition humidity_sensor :: entity where
  "humidity_sensor =
     Sensor
       \<lparr>name = JSString ''Davao Humidity'', val = JSNumber (Finite 60),
        description = JSString ''Relative humidity'', city = JSString ''Davao'',
        lat = JSNull, lon = JSNull\<rparr>"

definition equator_sensor :: entity where
  "equator_sensor =
     TemperatureSensor
       \<lparr>name = JSString ''Pontianak Soil Quality'', val = JSNumber (Finite 40),
        description = JSString ''Moisture Level'', city = JSString ''Pontianak'',
        lat = JSNumber (Finite 0), lon = JSNumber (Finite (437 / 4)),
        unit = JSString ''%''\<rparr>"

text \<open>
  Sensors that do not come back as they were: what the toggle flow builds for a category
  it has no mock reading for (an empty unit), a base \<open>Sensor\<close> whose name holds \<open>Temp\<close>,
  and a base \<open>Sensor\<close> whose value is \<open>NaN\<close>.
\<close>

definition unitless_sensor :: entity where
  "unitless_sensor =
     TemperatureSensor
       \<lparr>name = JSString ''Davao Noise'', val = JSNumber (Finite 0),
        description = JSString [], city = JSString ''Davao'',
        lat = JSNumber (Finite 7), lon = JSNumber (Finite (251 / 2)),
        unit = JSString []\<rparr>"

definition base_temp_sensor :: entity where
  "base_temp_sensor =
     Sensor
       \<lparr>name = JSString ''Room Temp'', val = JSNumber (Finite 21),
        description = JSString [], city = JSString [], lat = JSNull, lon = JSNull\<rparr>"

definition nan_sensor :: entity where
  "nan_sensor =
     Sensor
       \<lparr>name = JSString ''Davao Humidity'', val = JSNumber NaN,
        description = JSString ''Relative humidity'', city = JSString ''Davao'',
        lat = JSNull, lon = JSNull\<rparr>"

section \<open>Lists, lookups and the storage after a save\<close>

lemma map_throwing_Inr:
  "map_throwing f xs = Inr ys \<Longrightarrow> length ys = length xs \<and> (\<forall>i<length xs. f (xs ! i) = Inr (ys ! i))"
proof (induction xs arbitrary: ys)
  case Nil
  then show ?case by simp
next
  case (Cons x xs)
  from Cons.prems obtain y ys' where fx: "f x = Inr y" and rest: "map_throwing f xs = Inr ys'"
    and ys: "ys = y # ys'"
    by (auto split: sum.splits)
  from Cons.IH [OF rest] have len: "length ys' = length xs"
    and nth: "\<forall>i<length xs. f (xs ! i) = Inr (ys' ! i)" by simp_all
  show ?case
  proof (intro conjI allI impI)
    show "length ys = length (x # xs)" using len ys by simp
  next
    fix i assume "i < length (x # xs)"
    then show "f ((x # xs) ! i) = Inr (ys ! i)"
      using fx nth ys by (cases i) simp_all
  qed
qed

lemma map_throwing_map:
  "(\<And>x. x \<in> set xs \<Longrightarrow> f x = Inr (g x)) \<Longrightarrow> map_throwing f xs = Inr (map g xs)"
  by (induction xs) simp_all

lemma findIndex_None: "findIndex p xs = None \<longleftrightarrow> (\<forall>x\<in>set xs. \<not> p x)"
  by (induction xs) auto

lemma findIndex_Some:
  "findIndex p xs = Some i \<Longrightarrow> i < length xs \<and> p (xs ! i) \<and> (\<forall>j<i. \<not> p (xs ! j))"
proof (induction xs arbitrary: i)
  case Nil
  then show ?case by simp
next
  case (Cons x xs)
  show ?case
  proof (cases "p x")
    case True
    with Cons.prems show ?thesis by simp
  next
    case False
    with Cons.prems obtain k where k: "findIndex p xs = Some k" and i: "i = Suc k"
      by auto
    from Cons.IH [OF k] have "k < length xs" "p (xs ! k)" "\<forall>j<k. \<not> p (xs ! j)" by simp_all
    with i False show ?thesis by (auto simp: less_Suc_eq_0_disj)
  qed
qed

lemma findIndex_append_last:
  "\<forall>x\<in>set xs. \<not> p x \<Longrightarrow> p y \<Longrightarrow> findIndex p (xs @ [y]) = Some (length xs)"
  by (induction xs) simp_all

lemma splice1_length: "i < length xs \<Longrightarrow> length (splice1 i xs) = length xs - 1"
  by (simp add: splice1_def)

lemma splice1_nth_before: "j < i \<Longrightarrow> i < length xs \<Longrightarrow> splice1 i xs ! j = xs ! j"
  by (simp add: splice1_def nth_append)

lemma splice1_nth_after:
  "i \<le> j \<Longrightarrow> Suc j < length xs \<Longrightarrow> splice1 i xs ! j = xs ! Suc j"
  by (simp add: splice1_def nth_append min_def)

lemma splice1_append_last: "splice1 (length xs) (xs @ [y]) = xs"
  by (simp add: splice1_def)

lemma storage_saveAllSensors:
  "storage (saveAllSensors xs st) = Some (map (\<lambda>s. json_plain (toJSON s)) xs)"
  by (simp add: saveAllSensors_def)

lemma storage_renderManageList: "storage (final (renderManageList st)) = storage st"
  by (simp add: renderManageList_def split: sum.splits)

lemma storage_save_and_refresh:
  "storage (final (save_and_refresh c xs st)) = Some (map (\<lambda>s. json_plain (toJSON s)) xs)"
proof -
  have "storage (final (renderManageList (saveAllSensors xs st))) =
      Some (map (\<lambda>s. json_plain (toJSON s)) xs)"
    by (simp only: storage_renderManageList storage_saveAllSensors)
  then show ?thesis
    by (auto simp: save_and_refresh_def split: result.splits sum.splits)
qed

lemma revert_after_flip:
  "map_of cbs k = Some cb \<Longrightarrow>
   map_of (map (\<lambda>(k', b). (k', if cb_value b = cb_value cb
                                then b\<lparr>cb_checked := \<not> \<not> cb_checked cb\<rparr> else b))
             (flip_checkbox k cbs)) k = Some cb"
proof (induction cbs)
  case Nil
  then show ?case by simp
next
  case (Cons p cbs)
  obtain k1 b1 where p: "p = (k1, b1)" by (cases p)
  show ?case
  proof (cases "k1 = k")
    case True
    with Cons.prems p have "b1 = cb" by simp
    with True p show ?thesis by (simp add: flip_checkbox_def)
  next
    case False
    with Cons.prems p have "map_of cbs k = Some cb" by simp
    from Cons.IH [OF this] False p show ?thesis by (simp add: flip_checkbox_def)
  qed
qed

section \<open>Weather classification\<close>

text \<open>
  Claim C2. The status is \<open>Good Condition\<close> exactly when the temperature is in \<open>[18, 32]\<close>,
  the condition is neither rain nor thunder and the wind is below \<open>10\<close>; otherwise it is
  \<open>Bad Condition\<close> exactly when the temperature is above \<open>35\<close> or below \<open>5\<close>, or it rains
  or thunders, or the wind is above \<open>15\<close>; otherwise it is \<open>Moderate\<close>. The five readings
  of the specification are classified as it says: \<open>25\<close> degrees, no rain, wind \<open>5\<close> is
  good; \<open>40\<close> degrees is bad whatever the rest; \<open>10\<close> degrees with wind \<open>20\<close> is bad;
  \<open>15\<close> degrees with rain is bad; \<open>20\<close> degrees, wind \<open>12\<close>, no rain is moderate.
\<close>

theorem weather_classification:
  "(status w = ''Good Condition'' \<longleftrightarrow>
      num_le (Finite 18) (temp w) \<and> num_le (temp w) (Finite 32) \<and> \<not> isRain w
      \<and> num_less (wind_speed w) (Finite 10))
   \<and> (status w = ''Bad Condition'' \<longleftrightarrow>
      \<not> (num_le (Finite 18) (temp w) \<and> num_le (temp w) (Finite 32) \<and> \<not> isRain w
          \<and> num_less (wind_speed w) (Finite 10))
      \<and> (num_less (Finite 35) (temp w) \<or> num_less (temp w) (Finite 5) \<or> isRain w
          \<or> num_less (Finite 15) (wind_speed w)))
   \<and> (status w = ''Moderate'' \<longleftrightarrow>
      \<not> (num_le (Finite 18) (temp w) \<and> num_le (temp w) (Finite 32) \<and> \<not> isRain w
          \<and> num_less (wind_speed w) (Finite 10))
      \<and> \<not> (num_less (Finite 35) (temp w) \<or> num_less (temp w) (Finite 5) \<or> isRain w
          \<or> num_less (Finite 15) (wind_speed w)))
   \<and> (temp w1 = Finite 25 \<and> \<not> isRain w1 \<and> wind_speed w1 = Finite 5
        \<longrightarrow> status w1 = ''Good Condition'')
   \<and> (temp w2 = Finite 40 \<longrightarrow> status w2 = ''Bad Condition'')
   \<and> (temp w3 = Finite 10 \<and> wind_speed w3 = Finite 20 \<longrightarrow> status w3 = ''Bad Condition'')
   \<and> (temp w4 = Finite 15 \<and> isRain w4 \<longrightarrow> status w4 = ''Bad Condition'')
   \<and> (temp w5 = Finite 20 \<and> wind_speed w5 = Finite 12 \<and> \<not> isRain w5
        \<longrightarrow> status w5 = ''Moderate'')"
  by (simp add: status_def weatherAnalysis_def)

theorem weather_classification_witness:
  "status davao_weather = ''Good Condition''
   \<and> \<not> isRain davao_weather
   \<and> status (davao_weather\<lparr>temp := Finite 40\<rparr>) = ''Bad Condition''
   \<and> status (davao_weather\<lparr>temp := Finite 10, wind_speed := Finite 20\<rparr>) = ''Bad Condition''
   \<and> isRain (davao_weather\<lparr>temp := Finite 15, weather_main := ''Rain''\<rparr>)
   \<and> status (davao_weather\<lparr>temp := Finite 15, weather_main := ''Rain''\<rparr>) = ''Bad Condition''
   \<and> status (davao_weather\<lparr>temp := Finite 20, wind_speed := Finite 12\<rparr>) = ''Moderate''"
  using weather_classification [of davao_weather davao_weather
      "davao_weather\<lparr>temp := Finite 40\<rparr>"
      "davao_weather\<lparr>temp := Finite 10, wind_speed := Finite 20\<rparr>"
      "davao_weather\<lparr>temp := Finite 15, weather_main := ''Rain''\<rparr>"
      "davao_weather\<lparr>temp := Finite 20, wind_speed := Finite 12\<rparr>"]
  by (simp add: davao_weather_def isRain_def toLowerCase_def lower_char_def)

section \<open>Toggling a category\<close>

text \<open>
  Claim C8. With no city selected, \<open>toggleSensor\<close> shows the alert, sets every checkbox of
  the toggled category back to the opposite of the state it was called with, and returns:
  the result is the state it started from with only \<open>alerts\<close> and \<open>checkboxes\<close> changed,
  whatever the storage holds, so the stored collection is neither read nor written. For
  the \<open>change\<close> listener this means that the box the user clicked is as it was before
  the click.
\<close>

theorem toggle_without_city:
  assumes "no_city (currentCity st)"
  shows "toggleSensor fetched rnd type isChecked st =
           Ok (st\<lparr>alerts := alerts st @ [''Please search for a city first.''],
                  checkboxes :=
                    map (\<lambda>(k, cb). (k, if cb_value cb = type then cb\<lparr>cb_checked := \<not> isChecked\<rparr> else cb))
                      (checkboxes st)\<rparr>)
         \<and> storage (final (toggleSensor fetched rnd type isChecked st)) = storage st
         \<and> (map_of (checkboxes st) k = Some cb \<longrightarrow>
              (\<exists>st'. onChange k fetched rnd st = Ok st'
                 \<and> map_of (checkboxes st') k = Some cb
                 \<and> alerts st' = alerts st @ [''Please search for a city first.'']
                 \<and> storage st' = storage st \<and> sensors st' = sensors st
                 \<and> currentCity st' = currentCity st
                 \<and> currentWeatherData st' = currentWeatherData st))"
proof (intro conjI impI)
  show eq: "toggleSensor fetched rnd type isChecked st =
           Ok (st\<lparr>alerts := alerts st @ [''Please search for a city first.''],
                  checkboxes :=
                    map (\<lambda>(k, cb). (k, if cb_value cb = type then cb\<lparr>cb_checked := \<not> isChecked\<rparr> else cb))
                      (checkboxes st)\<rparr>)"
    using assms by (simp add: toggleSensor_def)
  show "storage (final (toggleSensor fetched rnd type isChecked st)) = storage st"
    by (simp add: eq)
next
  assume cb: "map_of (checkboxes st) k = Some cb"
  show "\<exists>st'. onChange k fetched rnd st = Ok st'
                 \<and> map_of (checkboxes st') k = Some cb
                 \<and> alerts st' = alerts st @ [''Please search for a city first.'']
                 \<and> storage st' = storage st \<and> sensors st' = sensors st
                 \<and> currentCity st' = currentCity st
                 \<and> currentWeatherData st' = currentWeatherData st"
    using assms cb revert_after_flip [OF cb]
    by (simp add: onChange_def toggleSensor_def)
qed

theorem toggle_without_city_witness:
  "no_city (currentCity fresh_state)
   \<and> toggleSensor None 0 ''Air Quality'' True fresh_state =
       Ok (fresh_state\<lparr>alerts := [''Please search for a city first.'']\<rparr>)
   \<and> map_of (checkboxes fresh_state) ''Air Quality''
       = Some \<lparr>cb_value = ''Air Quality'', cb_checked = False\<rparr>
   \<and> onChange ''Air Quality'' None 0 fresh_state =
       Ok (fresh_state\<lparr>alerts := [''Please search for a city first.'']\<rparr>)"
  using toggle_without_city [of fresh_state None 0 "''Air Quality''" True "''Air Quality''"
      "\<lparr>cb_value = ''Air Quality'', cb_checked = False\<rparr>"]
  by (simp add: fresh_state_def page_checkboxes_def no_city_def onChange_def toggleSensor_def
      flip_checkbox_def)

text \<open>
  Claim C4. When the weather has to be fetched during a toggle-on (a city is selected, the
  sensors load, none has the name, and no weather is cached) and the fetch answers
  \<open>null\<close>, the toggle returns with the state, the stored collection included, exactly as
  it was.
\<close>

theorem failed_fetch_leaves_state:
  assumes "\<not> no_city (currentCity st)"
    and "currentCity st = Some c"
    and "getAllSensors st = Inr allSensors"
    and "findIndex (\<lambda>s. strict_eq (getName s) (JSString (c @ '' '' @ type))) allSensors = None"
    and "currentWeatherData st = None"
  shows "toggleSensor None rnd type True st = Ok st"
  using assms by (simp add: toggleSensor_def)

theorem failed_fetch_leaves_state_witness:
  "\<not> no_city (currentCity (davao_state\<lparr>currentWeatherData := None\<rparr>))
   \<and> currentCity (davao_state\<lparr>currentWeatherData := None\<rparr>) = Some ''Davao''
   \<and> getAllSensors (davao_state\<lparr>currentWeatherData := None\<rparr>) = Inr []
   \<and> findIndex (\<lambda>s. strict_eq (getName s) (JSString (''Davao'' @ '' '' @ ''Air Quality''))) [] = None
   \<and> currentWeatherData (davao_state\<lparr>currentWeatherData := None\<rparr>) = None
   \<and> toggleSensor None (1 / 2) ''Air Quality'' True (davao_state\<lparr>currentWeatherData := None\<rparr>)
       = Ok (davao_state\<lparr>currentWeatherData := None\<rparr>)"
  using failed_fetch_leaves_state [of "davao_state\<lparr>currentWeatherData := None\<rparr>" "''Davao''" "[]"
      "''Air Quality''" "1 / 2"]
  by (simp add: davao_state_def fresh_state_def no_city_def getAllSensors_def readRawSensors_def)

section \<open>Loading and saving\<close>

lemma js_or_defined [simp]: "d \<noteq> JSUndefined \<Longrightarrow> default_arg d' (js_or v d) = js_or v d"
  by (cases v) (auto simp: js_or_def default_arg_def)

lemma toLowerCase_Nil [simp]: "toLowerCase [] = []"
  by (simp add: toLowerCase_def)

lemma reconstruct_fields:
  assumes "reconstruct obj = Inr e"
  shows "getName e = obj_name obj" and "getValue e = obj_value obj"
    and "get_description e = js_or (obj_description obj) (JSString [])"
    and "get_city e = js_or (obj_city obj) (JSString [])"
    and "get_lat e = js_or (obj_lat obj) JSNull"
    and "get_lon e = js_or (obj_lon obj) JSNull"
    and "is_TemperatureSensor e \<Longrightarrow> get_unit e = js_or (obj_unit obj) (JSString degC)"
    and "is_TemperatureSensor e \<longleftrightarrow>
           obj_type obj = JSString ''temperature''
           \<or> (\<exists>s. obj_name obj = JSString s \<and> includes_str (toLowerCase s) ''temp'')"
  using assms
  by (auto simp: reconstruct_def looks_like_temperature_def strict_eq_def new_Sensor_def
      new_TemperatureSensor_def sensor.defs temperature_sensor.defs
      split: sum.splits bool.splits if_splits jsval.splits)

lemma reconstruct_returns:
  assumes "(\<exists>s. obj_name obj = JSString s) \<or> \<not> truthy (obj_name obj)
           \<or> obj_type obj = JSString ''temperature''"
  shows "\<exists>e. reconstruct obj = Inr e"
  using assms
  by (auto simp: reconstruct_def looks_like_temperature_def strict_eq_def
      split: sum.splits bool.splits if_splits jsval.splits)

lemma saved_fields:
  "obj_name (json_plain (toJSON x)) = json_value (getName x)"
  "obj_value (json_plain (toJSON x)) = json_value (getValue x)"
  "obj_description (json_plain (toJSON x)) = json_value (get_description x)"
  "obj_city (json_plain (toJSON x)) = json_value (get_city x)"
  "obj_lat (json_plain (toJSON x)) = json_value (get_lat x)"
  "obj_lon (json_plain (toJSON x)) = json_value (get_lon x)"
  "obj_unit (json_plain (toJSON x)) = json_value (get_unit x)"
  "obj_type (json_plain (toJSON x)) =
     (if is_TemperatureSensor x then JSString ''temperature'' else JSUndefined)"
  by (cases x; simp add: json_plain_def Sensor_toJSON_def)+

lemma readRawSensors_saved:
  "readRawSensors (saveAllSensors xs st) = map (\<lambda>s. json_plain (toJSON s)) xs"
  by (simp add: readRawSensors_def saveAllSensors_def)

lemma getAllSensors_nth:
  assumes "getAllSensors st = Inr loaded" and "i < length loaded"
  shows "reconstruct (readRawSensors st ! i) = Inr (loaded ! i)"
    and "length loaded = length (readRawSensors st)"
  using map_throwing_Inr [of reconstruct "readRawSensors st" loaded] assms
  by (simp_all add: getAllSensors_def)

lemmas ex_defs = air_record_def legacy_record_def humidity_record_def equator_record_def
  air_sensor_def legacy_sensor_def humidity_sensor_def equator_sensor_def

lemmas load_defs = getAllSensors_def readRawSensors_def reconstruct_def
  looks_like_temperature_def strict_eq_def js_or_def default_arg_def new_Sensor_def
  new_TemperatureSensor_def sensor.defs temperature_sensor.defs toLowerCase_def lower_char_def

lemmas save_defs = saveAllSensors_def json_plain_def Sensor_toJSON_def

text \<open>
  Claim C6. \<open>getAllSensors\<close> loads a stored array record by record, keeping the order.
  A record becomes a \<open>TemperatureSensor\<close> exactly when its type tag is \<open>temperature\<close> or
  its name is a string that holds \<open>temp\<close> in some letter case, and a base \<open>Sensor\<close>
  otherwise. Name and value are taken as stored; a missing description or city becomes
  the empty string, a missing latitude or longitude \<open>null\<close>, a missing unit of a
  \<open>TemperatureSensor\<close> the degree-Celsius unit; a field that is present and truthy is
  kept. The names are as the stored format has them (a string, or nothing truthy): on an
  untagged record with any other name the name test itself throws.
\<close>

theorem getAllSensors_shapes:
  assumes "\<forall>obj\<in>set (readRawSensors st).
             (\<exists>s. obj_name obj = JSString s) \<or> \<not> truthy (obj_name obj)
             \<or> obj_type obj = JSString ''temperature''"
  shows "\<exists>loaded. getAllSensors st = Inr loaded
           \<and> length loaded = length (readRawSensors st)
           \<and> (\<forall>i<length loaded.
                 (is_TemperatureSensor (loaded ! i) \<longleftrightarrow>
                    obj_type (readRawSensors st ! i) = JSString ''temperature''
                    \<or> (\<exists>s. obj_name (readRawSensors st ! i) = JSString s
                           \<and> includes_str (toLowerCase s) ''temp''))
                 \<and> getName (loaded ! i) = obj_name (readRawSensors st ! i)
                 \<and> getValue (loaded ! i) = obj_value (readRawSensors st ! i)
                 \<and> get_description (loaded ! i) =
                     (if obj_description (readRawSensors st ! i) = JSUndefined then JSString []
                      else js_or (obj_description (readRawSensors st ! i)) (JSString []))
                 \<and> get_city (loaded ! i) =
                     (if obj_city (readRawSensors st ! i) = JSUndefined then JSString []
                      else js_or (obj_city (readRawSensors st ! i)) (JSString []))
                 \<and> get_lat (loaded ! i) =
                     (if obj_lat (readRawSensors st ! i) = JSUndefined then JSNull
                      else js_or (obj_lat (readRawSensors st ! i)) JSNull)
                 \<and> get_lon (loaded ! i) =
                     (if obj_lon (readRawSensors st ! i) = JSUndefined then JSNull
                      else js_or (obj_lon (readRawSensors st ! i)) JSNull)
                 \<and> get_unit (loaded ! i) =
                     (if \<not> is_TemperatureSensor (loaded ! i) then JSUndefined
                      else if obj_unit (readRawSensors st ! i) = JSUndefined then JSString degC
                      else js_or (obj_unit (readRawSensors st ! i)) (JSString degC)))"
proof -
  let ?raw = "readRawSensors st"
  have "\<forall>obj\<in>set ?raw. \<exists>e. reconstruct obj = Inr e"
    using assms reconstruct_returns by blast
  then obtain g where g: "\<And>obj. obj \<in> set ?raw \<Longrightarrow> reconstruct obj = Inr (g obj)"
    by metis
  have loaded: "getAllSensors st = Inr (map g ?raw)"
    unfolding getAllSensors_def by (rule map_throwing_map) (rule g)
  show ?thesis
  proof (intro exI conjI allI impI)
    show "getAllSensors st = Inr (map g ?raw)" by (rule loaded)
    show "length (map g ?raw) = length ?raw" by simp
  next
    fix i assume "i < length (map g ?raw)"
    then have i: "i < length ?raw" by simp
    then have r: "reconstruct (?raw ! i) = Inr (map g ?raw ! i)"
      using g by simp
    note f = reconstruct_fields [OF r]
    show "is_TemperatureSensor (map g ?raw ! i) \<longleftrightarrow>
            obj_type (?raw ! i) = JSString ''temperature''
            \<or> (\<exists>s. obj_name (?raw ! i) = JSString s \<and> includes_str (toLowerCase s) ''temp'')"
      by (rule f(8))
    show "getName (map g ?raw ! i) = obj_name (?raw ! i)" by (rule f(1))
    show "getValue (map g ?raw ! i) = obj_value (?raw ! i)" by (rule f(2))
    show "get_description (map g ?raw ! i) =
            (if obj_description (?raw ! i) = JSUndefined then JSString []
             else js_or (obj_description (?raw ! i)) (JSString []))"
      by (simp add: f(3) js_or_def)
    show "get_city (map g ?raw ! i) =
            (if obj_city (?raw ! i) = JSUndefined then JSString []
             else js_or (obj_city (?raw ! i)) (JSString []))"
      by (simp add: f(4) js_or_def)
    show "get_lat (map g ?raw ! i) =
            (if obj_lat (?raw ! i) = JSUndefined then JSNull
             else js_or (obj_lat (?raw ! i)) JSNull)"
      by (simp add: f(5) js_or_def)
    show "get_lon (map g ?raw ! i) =
            (if obj_lon (?raw ! i) = JSUndefined then JSNull
             else js_or (obj_lon (?raw ! i)) JSNull)"
      by (simp add: f(6) js_or_def)
    show "get_unit (map g ?raw ! i) =
            (if \<not> is_TemperatureSensor (map g ?raw ! i) then JSUndefined
             else if obj_unit (?raw ! i) = JSUndefined then JSString degC
             else js_or (obj_unit (?raw ! i)) (JSString degC))"
    proof (cases "is_TemperatureSensor (map g ?raw ! i)")
      case True
      then show ?thesis by (simp add: f(7) js_or_def)
    next
      case False
      then show ?thesis by (cases "map g ?raw ! i") simp_all
    qed
  qed
qed

theorem getAllSensors_shapes_witness:
  "obj_type air_record = JSString ''temperature''
   \<and> obj_name legacy_record = JSString ''Room Temp''
   \<and> obj_name humidity_record = JSString ''Davao Humidity''
   \<and> getAllSensors (fresh_state\<lparr>storage := Some [air_record, legacy_record, humidity_record]\<rparr>)
       = Inr [air_sensor, legacy_sensor, humidity_sensor]
   \<and> is_TemperatureSensor air_sensor \<and> is_TemperatureSensor legacy_sensor
   \<and> \<not> is_TemperatureSensor humidity_sensor
   \<and> includes_str (toLowerCase ''Room Temp'') ''temp''
   \<and> \<not> includes_str (toLowerCase ''Davao Humidity'') ''temp''
   \<and> get_unit legacy_sensor = JSString degC"
  using getAllSensors_shapes
    [of "fresh_state\<lparr>storage := Some [air_record, legacy_record, humidity_record]\<rparr>"]
  by (simp add: ex_defs load_defs)

text \<open>
  Claim C9. A stored record whose latitude (or longitude) is \<open>0\<close>, or falsy in any other
  way, is loaded with that coordinate \<open>null\<close>; so a sensor whose latitude (or longitude)
  is exactly \<open>0\<close> does not have it after a save and a load.
\<close>

theorem falsy_coordinate_becomes_null:
  "(getAllSensors st = Inr loaded \<and> i < length loaded
      \<and> \<not> truthy (obj_lat (readRawSensors st ! i)) \<longrightarrow> get_lat (loaded ! i) = JSNull)
   \<and> (getAllSensors st = Inr loaded \<and> i < length loaded
      \<and> \<not> truthy (obj_lon (readRawSensors st ! i)) \<longrightarrow> get_lon (loaded ! i) = JSNull)
   \<and> (getAllSensors (saveAllSensors xs st) = Inr ys \<and> j < length xs
      \<and> get_lat (xs ! j) = JSNumber (Finite 0)
      \<longrightarrow> get_lat (ys ! j) = JSNull \<and> get_lat (ys ! j) \<noteq> get_lat (xs ! j))
   \<and> (getAllSensors (saveAllSensors xs st) = Inr ys \<and> j < length xs
      \<and> get_lon (xs ! j) = JSNumber (Finite 0)
      \<longrightarrow> get_lon (ys ! j) = JSNull \<and> get_lon (ys ! j) \<noteq> get_lon (xs ! j))"
proof (intro conjI impI; elim conjE)
  assume l: "getAllSensors st = Inr loaded" "i < length loaded"
  {
    assume "\<not> truthy (obj_lat (readRawSensors st ! i))"
    then show "get_lat (loaded ! i) = JSNull"
      using reconstruct_fields(5) [OF getAllSensors_nth(1) [OF l]] by (simp add: js_or_def)
  }
  {
    assume "\<not> truthy (obj_lon (readRawSensors st ! i))"
    then show "get_lon (loaded ! i) = JSNull"
      using reconstruct_fields(6) [OF getAllSensors_nth(1) [OF l]] by (simp add: js_or_def)
  }
next
  assume s: "getAllSensors (saveAllSensors xs st) = Inr ys" and j: "j < length xs"
  have len: "length ys = length xs"
    using map_throwing_Inr [of reconstruct "readRawSensors (saveAllSensors xs st)" ys] s
    by (simp add: getAllSensors_def readRawSensors_saved)
  then have r: "reconstruct (json_plain (toJSON (xs ! j))) = Inr (ys ! j)"
    using getAllSensors_nth(1) [OF s, of j] j by (simp add: readRawSensors_saved)
  {
    assume z: "get_lat (xs ! j) = JSNumber (Finite 0)"
    have "get_lat (ys ! j) = JSNull"
      using reconstruct_fields(5) [OF r] z by (simp add: saved_fields js_or_def)
    then show "get_lat (ys ! j) = JSNull" "get_lat (ys ! j) \<noteq> get_lat (xs ! j)"
      using z by simp_all
  }
  {
    assume z: "get_lon (xs ! j) = JSNumber (Finite 0)"
    have "get_lon (ys ! j) = JSNull"
      using reconstruct_fields(6) [OF r] z by (simp add: saved_fields js_or_def)
    then show "get_lon (ys ! j) = JSNull" "get_lon (ys ! j) \<noteq> get_lon (xs ! j)"
      using z by simp_all
  }
qed

theorem falsy_coordinate_becomes_null_witness:
  "getAllSensors (fresh_state\<lparr>storage := Some [equator_record]\<rparr>)
       = Inr [TemperatureSensor
                \<lparr>name = JSString ''Pontianak Soil Quality'', val = JSNumber (Finite 40),
                 description = JSString ''Moisture Level'', city = JSString ''Pontianak'',
                 lat = JSNull, lon = JSNumber (Finite (437 / 4)), unit = JSString ''%''\<rparr>]
   \<and> \<not> truthy (obj_lat equator_record)
   \<and> get_lat equator_sensor = JSNumber (Finite 0)
   \<and> getAllSensors (saveAllSensors [equator_sensor]
         (fresh_state\<lparr>storage := Some [equator_record]\<rparr>))
       = Inr [TemperatureSensor
                \<lparr>name = JSString ''Pontianak Soil Quality'', val = JSNumber (Finite 40),
                 description = JSString ''Moisture Level'', city = JSString ''Pontianak'',
                 lat = JSNull, lon = JSNumber (Finite (437 / 4)), unit = JSString ''%''\<rparr>]"
  using falsy_coordinate_becomes_null
    [of "fresh_state\<lparr>storage := Some [equator_record]\<rparr>"
        "[TemperatureSensor
                \<lparr>name = JSString ''Pontianak Soil Quality'', val = JSNumber (Finite 40),
                 description = JSString ''Moisture Level'', city = JSString ''Pontianak'',
                 lat = JSNull, lon = JSNumber (Finite (437 / 4)), unit = JSString ''%''\<rparr>]"
        0 "[equator_sensor]"
        "[TemperatureSensor
                \<lparr>name = JSString ''Pontianak Soil Quality'', val = JSNumber (Finite 40),
                 description = JSString ''Moisture Level'', city = JSString ''Pontianak'',
                 lat = JSNull, lon = JSNumber (Finite (437 / 4)), unit = JSString ''%''\<rparr>]" 0]
  by (simp add: ex_defs load_defs save_defs)

section \<open>Deleting a row\<close>



section \<open>Toggling off with duplicate names\<close>

text \<open>
  Claim C10. Toggling a category off removes the first loaded entity with the name
  \<open>city category\<close>, and only that one: no earlier entity has the name, every other entity,
  later ones of the same name included, is stored again in its place in the order.
\<close>

theorem toggle_off_removes_first_match:
  assumes "currentCity st = Some c" and "c \<noteq> []"
    and "getAllSensors st = Inr allSensors"
    and "findIndex (\<lambda>s. strict_eq (getName s) (JSString (c @ '' '' @ type))) allSensors = Some i"
  shows "i < length allSensors
         \<and> getName (allSensors ! i) = JSString (c @ '' '' @ type)
         \<and> (\<forall>j<i. getName (allSensors ! j) \<noteq> JSString (c @ '' '' @ type))
         \<and> storage (final (toggleSensor fetched rnd type False st)) =
             Some (map (\<lambda>s. json_plain (toJSON s)) (splice1 i allSensors))
         \<and> length (splice1 i allSensors) = length allSensors - 1
         \<and> (\<forall>j<i. splice1 i allSensors ! j = allSensors ! j)
         \<and> (\<forall>j. i \<le> j \<and> Suc j < length allSensors
                \<longrightarrow> splice1 i allSensors ! j = allSensors ! Suc j)"
proof -
  let ?p = "\<lambda>s. strict_eq (getName s) (JSString (c @ '' '' @ type))"
  from findIndex_Some [OF assms(4)]
  have i: "i < length allSensors" and hit: "?p (allSensors ! i)"
    and first: "\<forall>j<i. \<not> ?p (allSensors ! j)" by simp_all
  have st: "storage (final (toggleSensor fetched rnd type False st)) =
             Some (map (\<lambda>s. json_plain (toJSON s)) (splice1 i allSensors))"
    using assms by (simp add: toggleSensor_def no_city_def storage_save_and_refresh)
  show ?thesis
  proof (intro conjI allI impI)
    show "i < length allSensors" by (rule i)
    show "getName (allSensors ! i) = JSString (c @ '' '' @ type)"
      using hit by (simp add: strict_eq_def)
    show "storage (final (toggleSensor fetched rnd type False st)) =
             Some (map (\<lambda>s. json_plain (toJSON s)) (splice1 i allSensors))" by (rule st)
    show "length (splice1 i allSensors) = length allSensors - 1"
      using i by (rule splice1_length)
  next
    fix j assume "j < i"
    then show "getName (allSensors ! j) \<noteq> JSString (c @ '' '' @ type)"
      using first by (auto simp: strict_eq_def)
  next
    fix j assume "j < i"
    then show "splice1 i allSensors ! j = allSensors ! j"
      using i by (rule splice1_nth_before)
  next
    fix j assume "i \<le> j \<and> Suc j < length allSensors"
    then show "splice1 i allSensors ! j = allSensors ! Suc j"
      by (simp add: splice1_nth_after)
  qed
qed

theorem toggle_off_removes_first_match_witness:
  "currentCity (davao_state\<lparr>storage := Some [humidity_record, air_record, air_record]\<rparr>)
       = Some ''Davao''
   \<and> getAllSensors (davao_state\<lparr>storage := Some [humidity_record, air_record, air_record]\<rparr>)
       = Inr [humidity_sensor, air_sensor, air_sensor]
   \<and> findIndex (\<lambda>s. strict_eq (getName s) (JSString (''Davao'' @ '' '' @ ''Air Quality'')))
         [humidity_sensor, air_sensor, air_sensor] = Some 1
   \<and> storage (final (toggleSensor None 0 ''Air Quality'' False
         (davao_state\<lparr>storage := Some [humidity_record, air_record, air_record]\<rparr>)))
       = Some [humidity_record, air_record]"
  using toggle_off_removes_first_match
    [of "davao_state\<lparr>storage := Some [humidity_record, air_record, air_record]\<rparr>" "''Davao''"
        "[humidity_sensor, air_sensor, air_sensor]" "''Air Quality''" 1 None 0]
  by (simp add: ex_defs load_defs save_defs splice1_def davao_state_def fresh_state_def)

section \<open>Saving and loading again\<close>

lemma map_throwing_map_image:
  "(\<And>x. x \<in> set xs \<Longrightarrow> f (h x) = Inr (g x)) \<Longrightarrow> map_throwing f (map h xs) = Inr (map g xs)"
  by (induction xs) simp_all

lemma kept_by_storage_reconstruct:
  assumes "kept_by_storage e"
  shows "reconstruct (json_plain (toJSON e)) = Inr e"
proof (cases e)
  case (Sensor s)
  with assms show ?thesis
    by (cases s)
      (auto simp: reconstruct_def looks_like_temperature_def strict_eq_def js_or_def
        default_arg_def new_Sensor_def json_plain_def Sensor_toJSON_def common_fields_kept_def
        is_string_def null_or_nonzero_def
        split: jsval.splits jsnum.splits)
next
  case (TemperatureSensor t)
  with assms show ?thesis
    by (cases t)
      (auto simp: reconstruct_def looks_like_temperature_def strict_eq_def js_or_def
        default_arg_def new_Sensor_def new_TemperatureSensor_def sensor.defs
        temperature_sensor.defs json_plain_def Sensor_toJSON_def common_fields_kept_def
        is_string_def null_or_nonzero_def
        split: jsval.splits jsnum.splits)
qed

text \<open>
  Claim C1, as the code has it. Saving a collection and loading it again gives back the
  same entities, each with its class and with every field as it was, when every entity is
  one that storage keeps (\<open>kept_by_storage\<close>): string name, description and city, a value
  JSON can carry, coordinates that are \<open>null\<close> or a finite number other than zero, and
  for a \<open>TemperatureSensor\<close> a non-empty string unit, for a base \<open>Sensor\<close> a name without
  \<open>temp\<close>. A \<open>TemperatureSensor\<close> is chosen again through the type tag it was saved with.
\<close>

theorem save_load_roundtrip:
  assumes "\<forall>e\<in>set xs. kept_by_storage e"
  shows "getAllSensors (saveAllSensors xs st) = Inr xs"
proof -
  have "map_throwing reconstruct (map (\<lambda>s. json_plain (toJSON s)) xs) = Inr (map (\<lambda>e. e) xs)"
    by (rule map_throwing_map_image) (use assms kept_by_storage_reconstruct in blast)
  then show ?thesis
    by (simp add: getAllSensors_def readRawSensors_saved)
qed

theorem save_load_roundtrip_witness:
  "kept_by_storage air_sensor \<and> kept_by_storage humidity_sensor
   \<and> getAllSensors (saveAllSensors [air_sensor, humidity_sensor] fresh_state)
       = Inr [air_sensor, humidity_sensor]"
  using save_load_roundtrip [of "[air_sensor, humidity_sensor]" fresh_state]
  by (simp add: ex_defs common_fields_kept_def is_string_def null_or_nonzero_def
      toLowerCase_def lower_char_def)

text \<open>
  The round trip does not hold for every collection. Of these three sensors the first
  comes back with the degree-Celsius unit instead of the empty one, the second as a
  \<open>TemperatureSensor\<close> instead of a base \<open>Sensor\<close>, the third with value \<open>null\<close> instead
  of \<open>NaN\<close>.
\<close>

theorem save_load_roundtrip_counterexample:
  "getAllSensors (saveAllSensors [unitless_sensor, base_temp_sensor, nan_sensor] fresh_state)
     = Inr [TemperatureSensor
              \<lparr>name = JSString ''Davao Noise'', val = JSNumber (Finite 0),
               description = JSString [], city = JSString ''Davao'',
               lat = JSNumber (Finite 7), lon = JSNumber (Finite (251 / 2)),
               unit = JSString degC\<rparr>,
            TemperatureSensor
              \<lparr>name = JSString ''Room Temp'', val = JSNumber (Finite 21),
               description = JSString [], city = JSString [], lat = JSNull, lon = JSNull,
               unit = JSString degC\<rparr>,
            Sensor
              \<lparr>name = JSString ''Davao Humidity'', val = JSNull,
               description = JSString ''Relative humidity'', city = JSString ''Davao'',
               lat = JSNull, lon = JSNull\<rparr>]
   \<and> getAllSensors (saveAllSensors [unitless_sensor, base_temp_sensor, nan_sensor] fresh_state)
     \<noteq> Inr [unitless_sensor, base_temp_sensor, nan_sensor]
   \<and> get_unit unitless_sensor = JSString []
   \<and> \<not> is_TemperatureSensor base_temp_sensor
   \<and> getValue nan_sensor = JSNumber NaN"
  by (simp add: unitless_sensor_def base_temp_sensor_def nan_sensor_def load_defs save_defs
      degC_def)

section \<open>Toggling a category on, then off\<close>

lemma currentCity_save_and_refresh:
  "currentCity (final (save_and_refresh c xs st)) = currentCity st"
  by (auto simp: save_and_refresh_def renderManageList_def saveAllSensors_def
      split: result.splits sum.splits)

lemma readRawSensors_save_and_refresh:
  "readRawSensors (final (save_and_refresh c xs st)) = map (\<lambda>s. json_plain (toJSON s)) xs"
  by (simp add: readRawSensors_def storage_save_and_refresh)

lemma toggle_off_storage:
  assumes "currentCity st = Some c" and "c \<noteq> []"
    and "getAllSensors st = Inr allSensors"
    and "findIndex (\<lambda>s. strict_eq (getName s) (JSString (c @ '' '' @ type))) allSensors = Some i"
  shows "storage (final (toggleSensor fetched rnd type False st)) =
           Some (map (\<lambda>s. json_plain (toJSON s)) (splice1 i allSensors))"
  using assms by (simp add: toggleSensor_def no_city_def storage_save_and_refresh)

lemma toggle_on_result:
  assumes "currentCity st = Some c" and "c \<noteq> []"
    and "getAllSensors st = Inr allSensors"
    and "\<forall>s\<in>set allSensors. getName s \<noteq> JSString (c @ '' '' @ type)"
    and "currentWeatherData st = Some w \<or> (currentWeatherData st = None \<and> fetched = Some w)"
    and "coord w = Some (la, lo)"
    and "mockData type rnd = (v, u, desc)"
  shows "toggleSensor fetched rnd type True st =
           save_and_refresh c
             (allSensors @ [TemperatureSensor
                (new_TemperatureSensor (JSString (c @ '' '' @ type)) v (JSString desc)
                   (JSString c) la lo (JSString u))])
             (st\<lparr>currentWeatherData := Some w\<rparr>)"
proof -
  have none: "findIndex (\<lambda>s. strict_eq (getName s) (JSString (c @ '' '' @ type))) allSensors = None"
    using assms(4) by (simp add: findIndex_None strict_eq_def)
  from assms(5) show ?thesis
  proof
    assume cached: "currentWeatherData st = Some w"
    then have same: "st\<lparr>currentWeatherData := Some w\<rparr> = st" by simp
    show ?thesis
      using cached assms(1,2,3,6,7) none by (simp add: toggleSensor_def no_city_def same)
  next
    assume "currentWeatherData st = None \<and> fetched = Some w"
    with assms(1,2,3,6,7) none show ?thesis
      by (simp add: toggleSensor_def no_city_def)
  qed
qed

lemma json_value_string: "json_value n = JSString x \<longleftrightarrow> n = JSString x"
  by (cases n rule: json_value.cases) simp_all

lemma json_value_falsy: "\<not> truthy n \<Longrightarrow> \<not> truthy (json_value n)"
  by (cases n rule: json_value.cases) simp_all

lemma reconstruct_again:
  assumes "reconstruct obj = Inr e"
  shows "\<exists>e'. reconstruct (json_plain (toJSON e)) = Inr e'"
proof (rule reconstruct_returns)
  show "(\<exists>s. obj_name (json_plain (toJSON e)) = JSString s)
        \<or> \<not> truthy (obj_name (json_plain (toJSON e)))
        \<or> obj_type (json_plain (toJSON e)) = JSString ''temperature''"
  proof (cases "is_TemperatureSensor e")
    case True
    then show ?thesis by (simp add: saved_fields)
  next
    case False
    with reconstruct_fields(8) [OF assms]
    have tag: "obj_type obj \<noteq> JSString ''temperature''" by simp
    have nm: "getName e = obj_name obj" by (rule reconstruct_fields(1) [OF assms])
    from assms tag have "(\<exists>s. obj_name obj = JSString s) \<or> \<not> truthy (obj_name obj)"
      by (auto simp: reconstruct_def looks_like_temperature_def strict_eq_def
          split: sum.splits if_splits jsval.splits)
    then show ?thesis
      using nm json_value_falsy [of "obj_name obj"] by (auto simp: saved_fields)
  qed
qed

lemma entity_eqI:
  assumes "is_TemperatureSensor a = is_TemperatureSensor b"
    and "getName a = getName b" and "getValue a = getValue b"
    and "get_description a = get_description b" and "get_city a = get_city b"
    and "get_lat a = get_lat b" and "get_lon a = get_lon b" and "get_unit a = get_unit b"
  shows "a = b"
  using assms by (cases a; cases b) simp_all

lemma json_plain_fixed:
  assumes "json_plain obj = obj"
  shows "json_value (obj_name obj) = obj_name obj"
    and "json_value (obj_value obj) = obj_value obj"
    and "json_value (obj_description obj) = obj_description obj"
    and "json_value (obj_city obj) = obj_city obj"
    and "json_value (obj_lat obj) = obj_lat obj"
    and "json_value (obj_lon obj) = obj_lon obj"
    and "json_value (obj_unit obj) = obj_unit obj"
  using assms by (cases obj; simp add: json_plain_def)+

lemma js_or_json_value:
  "json_value v = v \<Longrightarrow> json_value d = d \<Longrightarrow> js_or (json_value (js_or v d)) d = js_or v d"
  by (simp add: js_or_def)

lemma reconstruct_again_clean:
  assumes r: "reconstruct obj = Inr e" and clean: "json_plain obj = obj"
  shows "reconstruct (json_plain (toJSON e)) = Inr e"
proof -
  from reconstruct_again [OF r] obtain e' where r': "reconstruct (json_plain (toJSON e)) = Inr e'"
    by blast
  note f = reconstruct_fields [OF r]
  note f' = reconstruct_fields [OF r', unfolded saved_fields]
  note c = json_plain_fixed [OF clean]
  have shape: "is_TemperatureSensor e' = is_TemperatureSensor e"
    unfolding f'(8) f(8) f(1) c(1) using f(8) by auto
  have "e' = e"
  proof (rule entity_eqI)
    show "is_TemperatureSensor e' = is_TemperatureSensor e" by (rule shape)
    show "getName e' = getName e" by (simp add: f'(1) f(1) c(1))
    show "getValue e' = getValue e" by (simp add: f'(2) f(2) c(2))
    show "get_description e' = get_description e"
      by (simp add: f'(3) f(3) js_or_json_value c(3))
    show "get_city e' = get_city e" by (simp add: f'(4) f(4) js_or_json_value c(4))
    show "get_lat e' = get_lat e" by (simp add: f'(5) f(5) js_or_json_value c(5))
    show "get_lon e' = get_lon e" by (simp add: f'(6) f(6) js_or_json_value c(6))
    show "get_unit e' = get_unit e"
    proof (cases "is_TemperatureSensor e")
      case True
      with shape have "is_TemperatureSensor e'" by simp
      from f'(7) [OF this] f(7) [OF True] show ?thesis
        by (simp add: js_or_json_value c(7))
    next
      case False
      with shape have "\<not> is_TemperatureSensor e'" by simp
      with False show ?thesis by (cases e; cases e') simp_all
    qed
  qed
  with r' show ?thesis by simp
qed


lemma getAllSensors_origin:
  assumes "getAllSensors st = Inr loaded" and "e \<in> set loaded"
  shows "\<exists>obj\<in>set (readRawSensors st). reconstruct obj = Inr e"
proof -
  from assms(2) obtain i where i: "i < length loaded" and e: "loaded ! i = e"
    by (auto simp: in_set_conv_nth)
  from getAllSensors_nth [OF assms(1) i] e
  have "reconstruct (readRawSensors st ! i) = Inr e" and "i < length (readRawSensors st)"
    using i by simp_all
  then show ?thesis by (metis nth_mem)
qed

lemma new_TemperatureSensor_getters:
  "getName (TemperatureSensor (new_TemperatureSensor n v d c la lo (JSString u))) = n"
  "get_unit (TemperatureSensor (new_TemperatureSensor n v d c la lo (JSString u))) = JSString u"
  "is_TemperatureSensor (TemperatureSensor (new_TemperatureSensor n v d c la lo (JSString u)))"
  by (simp_all add: new_TemperatureSensor_def new_Sensor_def default_arg_def sensor.defs
      temperature_sensor.defs)

text \<open>
  Claim C3. A city is selected, the stored sensors load, none of them has the name
  \<open>city category\<close>, and the weather with its coordinates is cached or fetched. Toggling
  the category on stores the loaded sensors followed by exactly one new one: a
  \<open>TemperatureSensor\<close> with that name, whose unit is the one of the category (\<open>AQI\<close>, \<open>pH\<close>,
  \<open>%\<close>, \<open>Index\<close>). Toggling the category off after that loads one sensor more than
  before, the last one alone having the name, and stores all of them but that one; when
  the stored records were clean JSON to begin with, what is stored is again the JSON form
  of the sensors first loaded.
\<close>

theorem toggle_on_then_off:
  assumes city: "currentCity st = Some c" "c \<noteq> []"
    and load: "getAllSensors st = Inr allSensors"
    and absent: "\<forall>s\<in>set allSensors. getName s \<noteq> JSString (c @ '' '' @ type)"
    and weather: "currentWeatherData st = Some w
                  \<or> (currentWeatherData st = None \<and> fetched = Some w)"
    and coord: "coord w = Some (la, lo)"
    and mock: "mockData type rnd = (v, u, desc)"
    and new: "newSensor = TemperatureSensor
                (new_TemperatureSensor (JSString (c @ '' '' @ type)) v (JSString desc)
                   (JSString c) la lo (JSString u))"
    and st_on: "st_on = final (toggleSensor fetched rnd type True st)"
    and st_off: "st_off = final (toggleSensor fetched' rnd' type False st_on)"
  shows "storage st_on = Some (map (\<lambda>s. json_plain (toJSON s)) (allSensors @ [newSensor]))
     \<and> getName newSensor = JSString (c @ '' '' @ type)
     \<and> is_TemperatureSensor newSensor
     \<and> get_unit newSensor = JSString u
     \<and> (type = ''Air Quality'' \<longrightarrow> u = ''AQI'')
     \<and> (type = ''Water Quality'' \<longrightarrow> u = ''pH'')
     \<and> (type = ''Soil Quality'' \<longrightarrow> u = ''%'')
     \<and> (type = ''Ecosystem Health'' \<longrightarrow> u = ''Index'')
     \<and> (\<exists>reloaded. getAllSensors st_on = Inr reloaded
           \<and> length reloaded = Suc (length allSensors)
           \<and> (\<forall>j<length allSensors. getName (reloaded ! j) \<noteq> JSString (c @ '' '' @ type))
           \<and> getName (reloaded ! length allSensors) = JSString (c @ '' '' @ type)
           \<and> storage st_off =
               Some (map (\<lambda>s. json_plain (toJSON s)) (take (length allSensors) reloaded)))
     \<and> ((\<forall>obj\<in>set (readRawSensors st). json_plain obj = obj)
           \<longrightarrow> storage st_off = Some (map (\<lambda>s. json_plain (toJSON s)) allSensors))"
proof -
  let ?X = "JSString (c @ '' '' @ type)"
  let ?p = "\<lambda>s. strict_eq (getName s) ?X"
  let ?save = "\<lambda>s. json_plain (toJSON s)"
  have on: "st_on = final (save_and_refresh c (allSensors @ [newSensor])
                          (st\<lparr>currentWeatherData := Some w\<rparr>))"
    unfolding st_on new
    by (simp only: toggle_on_result [OF city load absent weather coord mock])
  have stored_on: "storage st_on = Some (map ?save (allSensors @ [newSensor]))"
    unfolding on by (rule storage_save_and_refresh)
  have raw_on: "readRawSensors st_on = map ?save (allSensors @ [newSensor])"
    unfolding on by (rule readRawSensors_save_and_refresh)
  have city_on: "currentCity st_on = Some c"
    unfolding on by (simp add: currentCity_save_and_refresh city)
  have name_new: "getName newSensor = ?X" and temp_new: "is_TemperatureSensor newSensor"
    and unit_new: "get_unit newSensor = JSString u"
    unfolding new by (rule new_TemperatureSensor_getters)+
  have units: "type = ''Air Quality'' \<longrightarrow> u = ''AQI''" "type = ''Water Quality'' \<longrightarrow> u = ''pH''"
    "type = ''Soil Quality'' \<longrightarrow> u = ''%''" "type = ''Ecosystem Health'' \<longrightarrow> u = ''Index''"
    using mock by (auto simp: mockData_def split: if_splits)
  have again: "\<exists>e'. reconstruct (?save e) = Inr e'" if "e \<in> set (allSensors @ [newSensor])" for e
  proof (cases "e = newSensor")
    case True
    show ?thesis
      by (rule reconstruct_returns) (simp add: True saved_fields temp_new)
  next
    case False
    with that have "e \<in> set allSensors" by simp
    from getAllSensors_origin [OF load this] show ?thesis
      using reconstruct_again by blast
  qed
  then obtain g where g: "\<And>e. e \<in> set (allSensors @ [newSensor]) \<Longrightarrow> reconstruct (?save e) = Inr (g e)"
    by metis
  have reloaded: "getAllSensors st_on = Inr (map g allSensors @ [g newSensor])"
    unfolding getAllSensors_def raw_on
    using map_throwing_map_image [of "allSensors @ [newSensor]" reconstruct ?save g] g
    by simp
  have name_g: "getName (g e) = json_value (getName e)" if "e \<in> set (allSensors @ [newSensor])" for e
    using reconstruct_fields(1) [OF g [OF that]] by (simp add: saved_fields)
  have others: "\<forall>x\<in>set (map g allSensors). \<not> ?p x"
    using absent name_g by (auto simp: strict_eq_def json_value_string)
  have name_last: "getName (g newSensor) = ?X"
    using name_g [of newSensor] by (simp add: name_new)
  then have hit: "?p (g newSensor)" by (simp add: strict_eq_def)
  have idx: "findIndex ?p (map g allSensors @ [g newSensor]) = Some (length allSensors)"
    using findIndex_append_last [of "map g allSensors" ?p "g newSensor"] others hit by simp
  have stored_off: "storage st_off = Some (map ?save (map g allSensors))"
    unfolding st_off
    using toggle_off_storage [OF city_on city(2) reloaded idx, of fetched' rnd']
      splice1_append_last [of "map g allSensors" "g newSensor"]
    by simp
  have part_off: "\<exists>reloaded. getAllSensors st_on = Inr reloaded
           \<and> length reloaded = Suc (length allSensors)
           \<and> (\<forall>j<length allSensors. getName (reloaded ! j) \<noteq> ?X)
           \<and> getName (reloaded ! length allSensors) = ?X
           \<and> storage st_off = Some (map ?save (take (length allSensors) reloaded))"
  proof (intro exI conjI allI impI)
    show "getAllSensors st_on = Inr (map g allSensors @ [g newSensor])" by (rule reloaded)
    show "length (map g allSensors @ [g newSensor]) = Suc (length allSensors)" by simp
    show "getName ((map g allSensors @ [g newSensor]) ! length allSensors) = ?X"
      using name_last by (simp add: nth_append)
    show "storage st_off = Some (map ?save (take (length allSensors) (map g allSensors @ [g newSensor])))"
      using stored_off by simp
  next
    fix j assume j: "j < length allSensors"
    then have "getName (g (allSensors ! j)) \<noteq> ?X"
      using others by (auto simp: strict_eq_def)
    with j show "getName ((map g allSensors @ [g newSensor]) ! j) \<noteq> ?X"
      by (simp add: nth_append)
  qed
  have part_clean: "(\<forall>obj\<in>set (readRawSensors st). json_plain obj = obj)
           \<longrightarrow> storage st_off = Some (map ?save allSensors)"
  proof
    assume clean: "\<forall>obj\<in>set (readRawSensors st). json_plain obj = obj"
    have "g e = e" if e: "e \<in> set allSensors" for e
    proof -
      from getAllSensors_origin [OF load e] obtain obj
        where "obj \<in> set (readRawSensors st)" and r: "reconstruct obj = Inr e" by blast
      with clean have "json_plain obj = obj" by blast
      from reconstruct_again_clean [OF r this] g [of e] e show ?thesis by simp
    qed
    then have "map g allSensors = allSensors" by (simp add: map_idI)
    with stored_off show "storage st_off = Some (map ?save allSensors)" by simp
  qed
  from stored_on name_new temp_new unit_new units part_off part_clean show ?thesis
    by blast
qed

theorem toggle_on_then_off_witness:
  "currentCity (davao_state\<lparr>storage := Some [humidity_record]\<rparr>) = Some ''Davao''
   \<and> getAllSensors (davao_state\<lparr>storage := Some [humidity_record]\<rparr>) = Inr [humidity_sensor]
   \<and> getName humidity_sensor \<noteq> JSString (''Davao'' @ '' '' @ ''Air Quality'')
   \<and> currentWeatherData (davao_state\<lparr>storage := Some [humidity_record]\<rparr>) = Some davao_weather
   \<and> coord davao_weather = Some (JSNumber (Finite 7), JSNumber (Finite (251 / 2)))
   \<and> mockData ''Air Quality'' (1 / 2) = (JSNumber (Finite 95), ''AQI'', ''PM2.5 Index'')
   \<and> json_plain humidity_record = humidity_record
   \<and> storage (final (toggleSensor None (1 / 2) ''Air Quality'' True
         (davao_state\<lparr>storage := Some [humidity_record]\<rparr>)))
       = Some [humidity_record, air_record]
   \<and> storage (final (toggleSensor None 0 ''Air Quality'' False
         (final (toggleSensor None (1 / 2) ''Air Quality'' True
            (davao_state\<lparr>storage := Some [humidity_record]\<rparr>)))))
       = Some [humidity_record]"
proof -
  let ?S = "davao_state\<lparr>storage := Some [humidity_record]\<rparr>"
  have city: "currentCity ?S = Some ''Davao''" "''Davao'' \<noteq> []"
    by (simp_all add: davao_state_def)
  have load: "getAllSensors ?S = Inr [humidity_sensor]"
    by (simp add: humidity_record_def humidity_sensor_def load_defs)
  have absent: "\<forall>s\<in>set [humidity_sensor]. getName s \<noteq> JSString (''Davao'' @ '' '' @ ''Air Quality'')"
    by (simp add: humidity_sensor_def)
  have weather: "currentWeatherData ?S = Some davao_weather
                 \<or> (currentWeatherData ?S = None \<and> None = Some davao_weather)"
    by (simp add: davao_state_def)
  have coord: "coord davao_weather = Some (JSNumber (Finite 7), JSNumber (Finite (251 / 2)))"
    by (simp add: davao_weather_def)
  have mock: "mockData ''Air Quality'' (1 / 2) = (JSNumber (Finite 95), ''AQI'', ''PM2.5 Index'')"
    by (simp add: mockData_def)
  have new: "air_sensor = TemperatureSensor
                (new_TemperatureSensor (JSString (''Davao'' @ '' '' @ ''Air Quality''))
                   (JSNumber (Finite 95)) (JSString ''PM2.5 Index'') (JSString ''Davao'')
                   (JSNumber (Finite 7)) (JSNumber (Finite (251 / 2))) (JSString ''AQI''))"
    by (simp add: air_sensor_def new_TemperatureSensor_def new_Sensor_def default_arg_def
        sensor.defs temperature_sensor.defs)
  have clean: "json_plain humidity_record = humidity_record"
    by (simp add: humidity_record_def json_plain_def)
  have saved: "map (\<lambda>s. json_plain (toJSON s)) [humidity_sensor] = [humidity_record]"
    "map (\<lambda>s. json_plain (toJSON s)) ([humidity_sensor] @ [air_sensor])
       = [humidity_record, air_record]"
    by (simp_all add: ex_defs json_plain_def Sensor_toJSON_def)
  have raw: "readRawSensors ?S = [humidity_record]"
    by (simp add: readRawSensors_def)
  from toggle_on_then_off [OF city load absent weather coord mock new refl refl, of None 0]
  have "storage (final (toggleSensor None (1 / 2) ''Air Quality'' True ?S))
          = Some [humidity_record, air_record]"
    and "storage (final (toggleSensor None 0 ''Air Quality'' False
            (final (toggleSensor None (1 / 2) ''Air Quality'' True ?S))))
          = Some [humidity_record]"
    using clean by (simp_all only: saved raw list.set ball_simps insert_iff empty_iff simp_thms)
  with city(1) load absent weather coord mock clean show ?thesis
    by (simp del: append.simps)
qed

section \<open>The value of a Water Quality reading\<close>

lemmas toggle_defs = toggleSensor_def no_city_def save_and_refresh_def renderManageList_def
  in_city_def mockData_def splice1_def davao_state_def fresh_state_def davao_weather_def Let_def

lemma toFixed1_example: "toFixed1 (15 / 2) = ''7.5''"
  by code_simp

text \<open>
  Claim C5 says that every value is a number. For Water Quality the value is the result
  of \<open>toFixed(1)\<close>, a string, whatever \<open>Math.random()\<close> gives: with the draw \<open>0.5\<close> and
  Davao selected the new entity is stored, and loaded again, with the value \<open>"7.5"\<close>.
\<close>

theorem water_quality_value_is_string:
  "fst (mockData ''Water Quality'' rnd) = JSString (toFixed1 (rnd * 3 + 6))
   \<and> mockData ''Water Quality'' (1 / 2) = (JSString ''7.5'', ''pH'', ''Acidity Level'')
   \<and> storage (final (toggleSensor None (1 / 2) ''Water Quality'' True davao_state))
       = Some [\<lparr>obj_name = JSString ''Davao Water Quality'', obj_value = JSString ''7.5'',
                obj_description = JSString ''Acidity Level'', obj_city = JSString ''Davao'',
                obj_lat = JSNumber (Finite 7), obj_lon = JSNumber (Finite (251 / 2)),
                obj_unit = JSString ''pH'', obj_type = JSString ''temperature''\<rparr>]
   \<and> getAllSensors (final (toggleSensor None (1 / 2) ''Water Quality'' True davao_state))
       = Inr [TemperatureSensor
                \<lparr>name = JSString ''Davao Water Quality'', val = JSString ''7.5'',
                 description = JSString ''Acidity Level'', city = JSString ''Davao'',
                 lat = JSNumber (Finite 7), lon = JSNumber (Finite (251 / 2)),
                 unit = JSString ''pH''\<rparr>]"
  by (simp add: load_defs save_defs toggle_defs toFixed1_example)

end
